theory Spec2Isabelle
  imports Complex_Main "HOL-Library.Sublist"
begin

section \<open>The query translator of \<^verbatim>\<open>query_translator/translator.py\<close>\<close>

text \<open>
  The translator orchestrates collaborators that live in other modules: the parser, the
  entity linker, the answer-type identifier, the pattern matcher, the ranker and the SPARQL
  backend. Their behaviour is a parameter of the model (the record \<open>env\<close>); each call
  may raise and may change the collaborators' own state \<open>'x\<close> (backend counters, caches).
  The values they hand back (documents, spans, entities, answer types, candidates, rows)
  are opaque to the translator and have the type \<open>'v\<close>.
\<close>

subsection \<open>Values, errors and objects\<close>

type_synonym ref = nat
  \<comment> \<open>the identity of a Python object\<close>

type_synonym class_name = string

type_synonym exception_name = string

datatype error =
    Raised exception_name
      \<comment> \<open>an exception raised inside a collaborator, propagated unchanged\<close>
  | ZeroDivisionError
      \<comment> \<open>raised by a division of the translator itself\<close>

type_synonym ('a, 's) outcome = "(error + 'a) \<times> 's"
  \<comment> \<open>a call either raises or returns, and leaves a state behind in both cases\<close>

type_synonym ('a, 'x) collaborator = "'x \<Rightarrow> (exception_name + 'a) \<times> 'x"
  \<comment> \<open>a call into a collaborator: it raises or returns, and changes the collaborators' state\<close>

text \<open>
  The ranker's parameters. The translator reads \<open>entity_linker_class\<close> and
  \<open>relation_oracle\<close>; everything else the object carries is \<open>settings\<close>.
\<close>

record 'v parameters =
  entity_linker_class :: class_name
  param_relation_oracle :: "'v option"
  settings :: 'v

record 'v scorer =
  scorer_id :: ref
  scorer_parameters :: "'v parameters"

text \<open>\<open>Query\<close>, lines 26 to 38. The attributes start as \<open>None\<close>.\<close>

record 'v query =
  text' :: string
  target_type :: "'v option"
  tokens :: "'v option"
  content_tokens :: "'v option"
  identified_entities :: "'v list option"
  relation_oracle :: "'v option"
  is_count_query :: bool

text \<open>The attributes of a \<open>QueryTranslator\<close>, lines 49 to 55: references to objects.\<close>

record 'v translator =
  backend :: ref
  query_extender :: ref
  entity_linker :: ref
  nlp :: ref
  scorer :: "'v scorer"
  entity_index :: ref
  answer_type_identifier :: ref

text \<open>An entity linker instance: its class and what it was constructed from.\<close>

record 'v entity_linker_obj =
  linker_class :: class_name
  linker_parameters :: "'v parameters"
  linker_entity_index :: ref

text \<open>
  What \<open>get_result\<close> of a candidate returns: \<open>None\<close>, or a list of row groups.
\<close>

datatype 'v query_result = NoResult | RowGroups "'v list list"

record 'v TranslationResult =
  query_candidate :: 'v
  query_result_rows :: "'v query_result"

datatype template = ERT | ERMRT | ERMRERT

datatype query_field =
  Text | Target_type | Tokens | Content_tokens | Identified_entities
  | Relation_oracle | Is_count_query

text \<open>An assignment \<open>query.attribute = value\<close>: the attribute and the value.\<close>

datatype 'v attribute =
    Set_text string
  | Set_target_type "'v option"
  | Set_tokens "'v option"
  | Set_content_tokens "'v option"
  | Set_identified_entities "'v list option"
  | Set_relation_oracle "'v option"
  | Set_is_count_query bool

text \<open>
  What a run leaves behind in order: the log lines, the creation of the \<open>Query\<close>, every
  later assignment to one of its attributes, and the calls of the pattern matcher. The
  durations measured with \<open>time.time()\<close> are not part of the model.
\<close>

datatype event =
    Log_translating string
  | Query_created
  | Assigned query_field
  | Matcher_created
  | Matched template
  | Log_total_time
  | Log_translation_stats int real real
  | Log_ranking nat
  | Log_fetching
  | Log_truncating int
  | Log_fetch_stats int nat real real
  | Log_done string

record ('x, 'v) state =
  next_ref :: ref
    \<comment> \<open>every object created so far has a smaller identity\<close>
  linkers :: "ref \<rightharpoonup> 'v entity_linker_obj"
    \<comment> \<open>the entity linker instances\<close>
  extender_parameters :: "ref \<rightharpoonup> 'v parameters"
    \<comment> \<open>the parameters each candidate extender currently holds\<close>
  trace :: "event list"
  world :: 'x
    \<comment> \<open>the collaborators' own state\<close>

record 'v pattern_matcher =
  pm_query :: "'v query"
  pm_extender :: ref
  pm_backend :: ref

text \<open>
  The collaborators. A method takes the identity of the object it is called on first.
  \<^item> \<open>lower\<close>: \<open>str.lower\<close>, the case mapping of the interpreter;
  \<^item> \<open>nlp_call\<close>: \<open>self.nlp(query_text)\<close>; \<open>doc_text\<close>: the attribute \<open>text\<close> of a document;
  \<^item> \<open>identify_entities_in_tokens\<close>: the entity linker's method, which sees the instance;
  \<^item> \<open>identify_target\<close>: the answer type, or none, that the identifier stores in
    \<open>query.target_type\<close>, the one attribute it assigns;
  \<^item> \<open>get_content_tokens\<close>: the function of \<open>pattern_matcher\<close>;
  \<^item> \<open>match_pattern\<close>: the three \<open>match_..._pattern\<close> methods of a \<open>QueryPatternMatcher\<close>,
    which see the parameters the extender holds;
  \<^item> \<open>rank_query_candidates\<close>: the scorer's method;
  \<^item> \<open>get_result\<close>: \<open>query_candidate.get_result(include_name=...)\<close>;
  \<^item> \<open>num_queries_executed\<close>, \<open>total_query_time\<close>: the counters of a backend;
  \<^item> \<open>init_from_config\<close>: what constructing an entity linker of a class does to the
    collaborators' state, and whether it raises.
\<close>

record ('x, 'v) env =
  lower :: "string \<Rightarrow> string"
  nlp_call :: "ref \<Rightarrow> string \<Rightarrow> ('v, 'x) collaborator"
  doc_text :: "'v \<Rightarrow> string"
  identify_entities_in_tokens ::
    "ref \<Rightarrow> 'v entity_linker_obj option \<Rightarrow> 'v \<Rightarrow> ('v list, 'x) collaborator"
  identify_target :: "ref \<Rightarrow> 'v query \<Rightarrow> ('v option, 'x) collaborator"
  get_content_tokens :: "'v option \<Rightarrow> ('v, 'x) collaborator"
  match_pattern ::
    "template \<Rightarrow> 'v pattern_matcher \<Rightarrow> 'v parameters option \<Rightarrow> ('v list, 'x) collaborator"
  rank_query_candidates :: "'v scorer \<Rightarrow> 'v list \<Rightarrow> ('v list, 'x) collaborator"
  get_result :: "'v \<Rightarrow> bool \<Rightarrow> ('v query_result, 'x) collaborator"
  num_queries_executed :: "ref \<Rightarrow> 'x \<Rightarrow> int"
  total_query_time :: "ref \<Rightarrow> 'x \<Rightarrow> real"
  init_from_config :: "class_name \<Rightarrow> 'v parameters \<Rightarrow> ref \<Rightarrow> (unit, 'x) collaborator"

subsection \<open>Sequencing\<close>

definition and_then ::
  "('s \<Rightarrow> ('a, 's) outcome) \<Rightarrow> ('a \<Rightarrow> 's \<Rightarrow> ('b, 's) outcome) \<Rightarrow> 's \<Rightarrow> ('b, 's) outcome" where
  "and_then m f s = (case m s of (Inl e, s1) \<Rightarrow> (Inl e, s1) | (Inr a, s1) \<Rightarrow> f a s1)"

definition return :: "'a \<Rightarrow> 's \<Rightarrow> ('a, 's) outcome" where
  "return a s = (Inr a, s)"

definition call :: "('a, 'x) collaborator \<Rightarrow> ('x, 'v) state \<Rightarrow> ('a, ('x, 'v) state) outcome" where
  "call f s =
     (case f (world s) of
        (Inl exn, w) \<Rightarrow> (Inl (Raised exn), s\<lparr>world := w\<rparr>)
      | (Inr a, w) \<Rightarrow> (Inr a, s\<lparr>world := w\<rparr>))"

definition emit :: "event \<Rightarrow> ('x, 'v) state \<Rightarrow> (unit, ('x, 'v) state) outcome" where
  "emit ev s = (Inr (), s\<lparr>trace := trace s @ [ev]\<rparr>)"

text \<open>
  An assignment to an attribute of the \<open>Query\<close>: the object changes, and the trace
  records which attribute was assigned. Every change of a \<open>Query\<close> after its creation
  goes through \<open>assign\<close>.
\<close>

fun field_of :: "'v attribute \<Rightarrow> query_field" where
  "field_of (Set_text v) = Text"
| "field_of (Set_target_type v) = Target_type"
| "field_of (Set_tokens v) = Tokens"
| "field_of (Set_content_tokens v) = Content_tokens"
| "field_of (Set_identified_entities v) = Identified_entities"
| "field_of (Set_relation_oracle v) = Relation_oracle"
| "field_of (Set_is_count_query v) = Is_count_query"

fun setattr :: "'v query \<Rightarrow> 'v attribute \<Rightarrow> 'v query" where
  "setattr q (Set_text v) = q\<lparr>text' := v\<rparr>"
| "setattr q (Set_target_type v) = q\<lparr>target_type := v\<rparr>"
| "setattr q (Set_tokens v) = q\<lparr>tokens := v\<rparr>"
| "setattr q (Set_content_tokens v) = q\<lparr>content_tokens := v\<rparr>"
| "setattr q (Set_identified_entities v) = q\<lparr>identified_entities := v\<rparr>"
| "setattr q (Set_relation_oracle v) = q\<lparr>relation_oracle := v\<rparr>"
| "setattr q (Set_is_count_query v) = q\<lparr>is_count_query := v\<rparr>"

definition assign ::
  "'v query \<Rightarrow> 'v attribute \<Rightarrow> ('x, 'v) state \<Rightarrow> ('v query, ('x, 'v) state) outcome" where
  "assign q a s = (Inr (setattr q a), s\<lparr>trace := trace s @ [Assigned (field_of a)]\<rparr>)"

text \<open>Reading an attribute of a collaborator, and a computation that may raise.\<close>

definition observe :: "('x \<Rightarrow> 'a) \<Rightarrow> ('x, 'v) state \<Rightarrow> ('a, ('x, 'v) state) outcome" where
  "observe g s = (Inr (g (world s)), s)"

definition lift :: "error + 'a \<Rightarrow> 's \<Rightarrow> ('a, 's) outcome" where
  "lift r s = (r, s)"

subsection \<open>Python primitives\<close>

text \<open>\<open>not query_result\<close> is false exactly for a non-empty list.\<close>

fun truthy :: "'v query_result \<Rightarrow> bool" where
  "truthy NoResult = False"
| "truthy (RowGroups gs) = (gs \<noteq> [])"

text \<open>\<open>sum([len(rows) for rows in query_result])\<close>\<close>

fun count_rows :: "'v query_result \<Rightarrow> int" where
  "count_rows NoResult = 0"
| "count_rows (RowGroups gs) = sum_list (map (\<lambda>rows. int (length rows)) gs)"

text \<open>
  \<open>xs[:n]\<close>: the first \<open>n\<close> elements, and for a negative \<open>n\<close> all but the last
  \<open>-n\<close>.
\<close>

definition slice_to :: "'a list \<Rightarrow> int \<Rightarrow> 'a list" where
  "slice_to xs n = (if 0 \<le> n then take (nat n) xs else take (length xs - nat (- n)) xs)"

text \<open>
  \<open>a / b\<close> on floats, which raises on a zero divisor. Floats are idealised as reals:
  no rounding, and the literal \<open>0.001\<close> is one thousandth.
\<close>

definition truediv :: "real \<Rightarrow> real \<Rightarrow> error + real" where
  "truediv a b = (if b = 0 then Inl ZeroDivisionError else Inr (a / b))"

subsection \<open>The translator\<close>

text \<open>\<open>Query.__init__\<close>, lines 31 to 38.\<close>

definition Query_init :: "('x, 'v) env \<Rightarrow> string \<Rightarrow> 'v query" where
  "Query_init env txt =
     \<lparr>text' = lower env txt, target_type = None, tokens = None, content_tokens = None,
      identified_entities = None, relation_oracle = None, is_count_query = False\<rparr>"

text \<open>
  \<open>Ranker.get_parameters\<close>. Modelled from the spec: the scorer is a ranking configuration,
  and the call hands out the parameters it holds, without any effect.
\<close>

definition get_parameters :: "'v scorer \<Rightarrow> 'v parameters" where
  "get_parameters sc = scorer_parameters sc"

text \<open>
  \<open>QueryCandidateExtender.set_parameters\<close>. Modelled from the spec: the extender is
  notified of the ranking parameters and holds them.
\<close>

definition set_parameters :: "ref \<Rightarrow> 'v parameters \<Rightarrow> ('x, 'v) state \<Rightarrow> ('x, 'v) state" where
  "set_parameters r params s = s\<lparr>extender_parameters := (extender_parameters s)(r \<mapsto> params)\<rparr>"

text \<open>\<open>type(obj)\<close> for an entity linker; \<open>None\<close> when the object is no entity linker.\<close>

definition type_of :: "('x, 'v) state \<Rightarrow> ref \<Rightarrow> class_name option" where
  "type_of s r = map_option linker_class (linkers s r)"

text \<open>
  \<open>cls.init_from_config(params, entity_index)\<close>. Modelled from the spec: the entity
  linker classes are not among the sources; the call constructs a new instance of the class
  from the parameters and the entity index, and like every collaborator it may raise.
\<close>

definition new_entity_linker ::
  "('x, 'v) env \<Rightarrow> class_name \<Rightarrow> 'v parameters \<Rightarrow> ref \<Rightarrow> ('x, 'v) state
     \<Rightarrow> (ref, ('x, 'v) state) outcome" where
  "new_entity_linker env cls params idx s =
     (case init_from_config env cls params idx (world s) of
        (Inl exn, w) \<Rightarrow> (Inl (Raised exn), s\<lparr>world := w\<rparr>)
      | (Inr u, w) \<Rightarrow>
          (Inr (next_ref s),
           s\<lparr>next_ref := Suc (next_ref s),
             linkers := (linkers s)(next_ref s \<mapsto>
               \<lparr>linker_class = cls, linker_parameters = params, linker_entity_index = idx\<rparr>),
             world := w\<rparr>))"

text \<open>\<open>QueryTranslator.__init__\<close>, lines 42 to 56.\<close>

definition QueryTranslator_init ::
  "ref \<Rightarrow> ref \<Rightarrow> ref \<Rightarrow> ref \<Rightarrow> 'v scorer \<Rightarrow> ref \<Rightarrow> ref \<Rightarrow> ('x, 'v) state
     \<Rightarrow> 'v translator \<times> ('x, 'v) state" where
  "QueryTranslator_init backend' query_extender' entity_linker' nlp' scorer' entity_index'
       answer_type_identifier' s =
     (\<lparr>backend = backend', query_extender = query_extender', entity_linker = entity_linker',
       nlp = nlp', scorer = scorer', entity_index = entity_index',
       answer_type_identifier = answer_type_identifier'\<rparr>,
      set_parameters query_extender' (get_parameters scorer') s)"

text \<open>
  \<open>set_scorer\<close>, lines 76 to 89. The assignment to \<open>self.scorer\<close> comes first, so it
  stays when the construction of the entity linker raises.
\<close>

definition set_scorer ::
  "('x, 'v) env \<Rightarrow> 'v scorer \<Rightarrow> 'v translator \<Rightarrow> ('x, 'v) state
     \<Rightarrow> (error + unit) \<times> 'v translator \<times> ('x, 'v) state" where
  "set_scorer env scorer' t s =
     (let t1 = t\<lparr>scorer := scorer'\<rparr>;
          params = get_parameters scorer'
      in if type_of s (entity_linker t1) \<noteq> Some (entity_linker_class params) then
           (case new_entity_linker env (entity_linker_class params) params (entity_index t1) s of
              (Inl e, s1) \<Rightarrow> (Inl e, t1, s1)
            | (Inr r, s1) \<Rightarrow>
                (Inr (), t1\<lparr>entity_linker := r\<rparr>, set_parameters (query_extender t1) params s1))
         else (Inr (), t1, set_parameters (query_extender t1) params s))"

text \<open>\<open>get_scorer\<close>, lines 91 to 94.\<close>

definition get_scorer :: "'v translator \<Rightarrow> 'v scorer" where
  "get_scorer t = scorer t"

text \<open>\<open>parse_and_identify_entities\<close>, lines 128 to 143.\<close>

definition parse_and_identify_entities ::
  "('x, 'v) env \<Rightarrow> 'v translator \<Rightarrow> string \<Rightarrow> ('x, 'v) state
     \<Rightarrow> ('v query, ('x, 'v) state) outcome" where
  "parse_and_identify_entities env t query_text =
     and_then (call (nlp_call env (nlp t) query_text)) (\<lambda>query_doc.
     and_then (emit Query_created) (\<lambda>_.
     let query = Query_init env (doc_text env query_doc) in
     and_then (assign query (Set_tokens (Some query_doc))) (\<lambda>query.
     and_then (\<lambda>s. call (identify_entities_in_tokens env (entity_linker t)
                          (linkers s (entity_linker t)) query_doc) s) (\<lambda>entities.
     and_then (assign query (Set_identified_entities (Some entities))) (\<lambda>query.
     return query)))))"

text \<open>\<open>QueryPatternMatcher(query, extender, backend)\<close> keeps its three arguments.\<close>

definition QueryPatternMatcher :: "'v query \<Rightarrow> ref \<Rightarrow> ref \<Rightarrow> 'v pattern_matcher" where
  "QueryPatternMatcher q e b = \<lparr>pm_query = q, pm_extender = e, pm_backend = b\<rparr>"

text \<open>
  A call of one of \<open>match_ERT_pattern\<close>, \<open>match_ERMRT_pattern\<close> and
  \<open>match_ERMRERT_pattern\<close>; the matcher sees the parameters its extender holds.
  Modelled from the spec: a matcher is given the \<open>Query\<close> and hands back a list of
  candidates; it reads the \<open>Query\<close> and assigns none of its attributes.
\<close>

definition match ::
  "('x, 'v) env \<Rightarrow> template \<Rightarrow> 'v pattern_matcher \<Rightarrow> ('x, 'v) state
     \<Rightarrow> ('v list, ('x, 'v) state) outcome" where
  "match env tp pm =
     and_then (\<lambda>s. call (match_pattern env tp pm (extender_parameters s (pm_extender pm))) s)
       (\<lambda>matches.
     and_then (emit (Matched tp)) (\<lambda>_.
     return matches))"

text \<open>
  \<open>translate_query\<close>, lines 96 to 126. The answer-type identifier assigns
  \<open>query.target_type\<close> itself: the model makes this assignment with the answer type the
  identifier hands back.
\<close>

definition translate_query ::
  "('x, 'v) env \<Rightarrow> 'v translator \<Rightarrow> string \<Rightarrow> ('x, 'v) state
     \<Rightarrow> ('v query \<times> 'v list, ('x, 'v) state) outcome" where
  "translate_query env t query_text =
     and_then (emit (Log_translating query_text)) (\<lambda>_.
     and_then (parse_and_identify_entities env t query_text) (\<lambda>query.
     and_then (call (identify_target env (answer_type_identifier t) query)) (\<lambda>tt.
     and_then (assign query (Set_target_type tt)) (\<lambda>query.
     and_then (assign query
                 (Set_relation_oracle (param_relation_oracle (get_parameters (scorer t)))))
       (\<lambda>query.
     and_then (call (get_content_tokens env (tokens query))) (\<lambda>ct.
     and_then (assign query (Set_content_tokens (Some ct))) (\<lambda>query.
     and_then (emit Matcher_created) (\<lambda>_.
     let pattern_matcher = QueryPatternMatcher query (query_extender t) (backend t) in
     and_then (match env ERT pattern_matcher) (\<lambda>ert_matches.
     and_then (match env ERMRT pattern_matcher) (\<lambda>ermrt_matches.
     and_then (match env ERMRERT pattern_matcher) (\<lambda>ermrert_matches.
     and_then (emit Log_total_time) (\<lambda>_.
     return (query, ert_matches @ ermrt_matches @ ermrert_matches)))))))))))))"

text \<open>The loop of lines 175 to 182, over the candidates still to fetch.\<close>

fun fetch ::
  "('x, 'v) env \<Rightarrow> 'v list \<Rightarrow> 'v TranslationResult list \<times> int \<Rightarrow> ('x, 'v) state
     \<Rightarrow> ('v TranslationResult list \<times> int, ('x, 'v) state) outcome" where
  "fetch env [] (translations, n_total_translations) s =
     (Inr (translations, n_total_translations), s)"
| "fetch env (c # cs) (translations, n_total_translations) s =
     (case call (get_result env c True) s of
        (Inl e, s1) \<Rightarrow> (Inl e, s1)
      | (Inr query_result, s1) \<Rightarrow>
          if \<not> truthy query_result then fetch env cs (translations, n_total_translations) s1
          else fetch env cs
                 (translations @ [\<lparr>query_candidate = c, query_result_rows = query_result\<rparr>],
                  n_total_translations + count_rows query_result) s1)"

text \<open>
  \<open>translate_and_execute_query\<close>, lines 145 to 191. The named tuple is declared with
  \<open>verbose=False\<close>, as the interpreters up to Python 3.6 allow; the model is of these.
\<close>

definition translate_and_execute_query ::
  "('x, 'v) env \<Rightarrow> 'v translator \<Rightarrow> string \<Rightarrow> int \<Rightarrow> ('x, 'v) state
     \<Rightarrow> ('v query \<times> 'v TranslationResult list, ('x, 'v) state) outcome" where
  "translate_and_execute_query env t query n_top =
     and_then (observe (num_queries_executed env (backend t))) (\<lambda>num_sparql_queries0.
     and_then (observe (total_query_time env (backend t))) (\<lambda>sparql_query_time0.
     and_then (translate_query env t query) (\<lambda>(parsed_query, query_candidates).
     and_then (observe (total_query_time env (backend t))) (\<lambda>total1.
     let translation_time = (total1 - sparql_query_time0) * 1000 in
     and_then (observe (num_queries_executed env (backend t))) (\<lambda>num1.
     let num_sparql_queries = num1 - num_sparql_queries0 in
     and_then (lift (truediv translation_time (real_of_int num_sparql_queries + 0.001)))
       (\<lambda>avg_query_time.
     and_then (emit (Log_translation_stats num_sparql_queries translation_time avg_query_time))
       (\<lambda>_.
     and_then (emit (Log_ranking (length query_candidates))) (\<lambda>_.
     and_then (call (rank_query_candidates env (scorer t) query_candidates))
       (\<lambda>ranked_candidates.
     and_then (emit Log_fetching) (\<lambda>_.
     and_then (observe (total_query_time env (backend t))) (\<lambda>sparql_query_time1.
     and_then (if int (length ranked_candidates) > n_top
               then emit (Log_truncating n_top) else return ()) (\<lambda>_.
     and_then (fetch env (slice_to ranked_candidates n_top) ([], 0))
       (\<lambda>(translations, n_total_translations).
     and_then (observe (total_query_time env (backend t))) (\<lambda>total2.
     let result_fetch_time = (total2 - sparql_query_time1) * 1000 in
     and_then (lift (truediv result_fetch_time (real (length translations) + 0.001)))
       (\<lambda>avg_result_fetch_time.
     and_then (emit (Log_fetch_stats n_total_translations (length translations)
                       result_fetch_time avg_result_fetch_time)) (\<lambda>_.
     and_then (emit (Log_done query)) (\<lambda>_.
     return (parsed_query, translations))))))))))))))))))"

subsection \<open>The pattern matcher, from the specification\<close>

text \<open>
  Modelled from the spec: \<open>pattern_matcher.py\<close> is not among the sources. A template
  family "enumerates structural graph-query templates instantiated with identified
  entities", each family on its own: the candidates of a family are those of the identified
  entities of the query, one entity after the other. What the instantiation of a template
  with one entity yields, and which backend queries it runs, is the parameter \<open>inst\<close>.
\<close>

fun instantiate_all :: "('v \<Rightarrow> ('v list, 'x) collaborator) \<Rightarrow> 'v list \<Rightarrow> ('v list, 'x) collaborator" where
  "instantiate_all inst [] w = (Inr [], w)"
| "instantiate_all inst (e # es) w =
     (case inst e w of
        (Inl exn, w1) \<Rightarrow> (Inl exn, w1)
      | (Inr cs, w1) \<Rightarrow>
          (case instantiate_all inst es w1 of
             (Inl exn, w2) \<Rightarrow> (Inl exn, w2)
           | (Inr ds, w2) \<Rightarrow> (Inr (cs @ ds), w2)))"

definition spec_match_pattern ::
  "(template \<Rightarrow> 'v pattern_matcher \<Rightarrow> 'v parameters option \<Rightarrow> 'v \<Rightarrow> ('v list, 'x) collaborator)
     \<Rightarrow> template \<Rightarrow> 'v pattern_matcher \<Rightarrow> 'v parameters option \<Rightarrow> ('v list, 'x) collaborator" where
  "spec_match_pattern inst tp pm params w =
     (case identified_entities (pm_query pm) of
        None \<Rightarrow> (Inl ''TypeError'', w)
      | Some es \<Rightarrow> instantiate_all (inst tp pm params) es w)"

subsection \<open>The execution stage, in the words of the specification\<close>

text \<open>
  "For each retained candidate (in ranked order) fetches result rows": every candidate is
  fetched, one after the other, and the first failure ends the run.
\<close>

fun fetch_all :: "('x, 'v) env \<Rightarrow> 'v list \<Rightarrow> ('v query_result list, 'x) collaborator" where
  "fetch_all env [] w = (Inr [], w)"
| "fetch_all env (c # cs) w =
     (case get_result env c True w of
        (Inl exn, w1) \<Rightarrow> (Inl exn, w1)
      | (Inr r, w1) \<Rightarrow>
          (case fetch_all env cs w1 of
             (Inl exn, w2) \<Rightarrow> (Inl exn, w2)
           | (Inr rs, w2) \<Rightarrow> (Inr (r # rs), w2)))"

text \<open>"Returns only non-empty translations, preserving rank order."\<close>

definition non_empty_translations :: "'v list \<Rightarrow> 'v query_result list \<Rightarrow> 'v TranslationResult list" where
  "non_empty_translations cs rs =
     map (\<lambda>(c, r). \<lparr>query_candidate = c, query_result_rows = r\<rparr>)
       (filter (\<lambda>(c, r). truthy r) (zip cs rs))"

subsection \<open>Observing a run\<close>

text \<open>The attributes of the \<open>Query\<close> that a run assigned, in the order of the assignments.\<close>

fun assignments :: "event list \<Rightarrow> query_field list" where
  "assignments [] = []"
| "assignments (Assigned f # evs) = f # assignments evs"
| "assignments (ev # evs) = assignments evs"

text \<open>What \<open>translate_query\<close> leaves in the trace when it returns.\<close>

definition translation_events :: "string \<Rightarrow> event list" where
  "translation_events query_text =
     [Log_translating query_text, Query_created, Assigned Tokens, Assigned Identified_entities,
      Assigned Target_type, Assigned Relation_oracle, Assigned Content_tokens,
      Matcher_created, Matched ERT, Matched ERMRT, Matched ERMRERT, Log_total_time]"

text \<open>
  The translators and states a program can arrive at: a translator is constructed, and then
  the methods are called on it in any order, whether they return or raise. The flag tells
  whether the scorer is settled: it is after the construction and after a call of
  \<open>set_scorer\<close> that returned, and it is not after a call of \<open>set_scorer\<close> that raised.
\<close>

inductive reachable :: "('x, 'v) env \<Rightarrow> bool \<Rightarrow> 'v translator \<Rightarrow> ('x, 'v) state \<Rightarrow> bool"
  for env :: "('x, 'v) env" where
  constructed:
    "QueryTranslator_init b qe el n sc ei ati s = (t, s') \<Longrightarrow> reachable env True t s'"
| scorer_set:
    "reachable env settled t s \<Longrightarrow> set_scorer env sc t s = (Inr (), t', s')
       \<Longrightarrow> reachable env True t' s'"
| scorer_not_set:
    "reachable env settled t s \<Longrightarrow> set_scorer env sc t s = (Inl e, t', s')
       \<Longrightarrow> reachable env False t' s'"
| parsed:
    "reachable env settled t s \<Longrightarrow> parse_and_identify_entities env t query_text s = (r, s')
       \<Longrightarrow> reachable env settled t s'"
| translated:
    "reachable env settled t s \<Longrightarrow> translate_query env t query_text s = (r, s')
       \<Longrightarrow> reachable env settled t s'"
| executed:
    "reachable env settled t s
       \<Longrightarrow> translate_and_execute_query env t query_text n_top s = (r, s')
       \<Longrightarrow> reachable env settled t s'"

subsection \<open>Properties of a computation\<close>

text \<open>
  A computation is steady when it neither creates an object nor touches the entity linkers
  and the extenders, and never divides by zero.
\<close>

definition steady :: "(('x, 'v) state \<Rightarrow> ('a, ('x, 'v) state) outcome) \<Rightarrow> bool" where
  "steady m \<longleftrightarrow>
     (\<forall>s r s'. m s = (r, s') \<longrightarrow>
        r \<noteq> Inl ZeroDivisionError \<and> next_ref s' = next_ref s \<and> linkers s' = linkers s \<and>
        extender_parameters s' = extender_parameters s)"

text \<open>
  A computation emits the events \<open>evs\<close> when a run that returns appends exactly these to
  the trace, and a run that raises appends some of them, from the first on.
\<close>

definition emits :: "(('x, 'v) state \<Rightarrow> ('a, ('x, 'v) state) outcome) \<Rightarrow> event list \<Rightarrow> bool" where
  "emits m evs \<longleftrightarrow>
     (\<forall>s r s'. m s = (r, s') \<longrightarrow>
        (\<exists>done. trace s' = trace s @ done \<and> prefix done evs \<and> (isl r \<or> done = evs)))"

subsection \<open>A small installation\<close>

text \<open>
  Collaborators to run the translator on: documents, entities, candidates and rows are
  strings, and the collaborators' state is the pair of the backend's counters. It is run
  on ASCII texts only, and its case mapping is what \<open>str.lower\<close> does on these: the
  capitals A to Z become small letters. The parser
  keeps the text as it is; the linker knows the entity \<open>Emma\<close>, capitalised; a template
  instantiated with an entity is a candidate named after both, found with one backend
  query of a quarter of a millisecond; the ranker reverses its input; the backend has rows
  for the one-hop candidate only.
\<close>

definition ascii_lower :: "string \<Rightarrow> string" where
  "ascii_lower txt =
     map (\<lambda>c. case map_of (zip ''ABCDEFGHIJKLMNOPQRSTUVWXYZ'' ''abcdefghijklmnopqrstuvwxyz'') c of
               None \<Rightarrow> c
             | Some l \<Rightarrow> l) txt"

definition example_inst ::
  "template \<Rightarrow> string pattern_matcher \<Rightarrow> string parameters option \<Rightarrow> string
     \<Rightarrow> (string list, int \<times> real) collaborator" where
  "example_inst tp pm params e w =
     (Inr [(case tp of ERT \<Rightarrow> ''ERT:'' | ERMRT \<Rightarrow> ''ERMRT:'' | ERMRERT \<Rightarrow> ''ERMRERT:'') @ e],
      (fst w + 1, snd w + 1 / 4))"

definition example_env :: "(int \<times> real, string) env" where
  "example_env =
     \<lparr>lower = ascii_lower,
      nlp_call = (\<lambda>r txt w. (Inr txt, w)),
      doc_text = (\<lambda>d. d),
      identify_entities_in_tokens =
        (\<lambda>r obj d w. (Inr (if d = ''Who wrote Emma'' then [''Emma''] else []), w)),
      identify_target = (\<lambda>r q w. (Inr (Some ''person''), w)),
      get_content_tokens =
        (\<lambda>d w. case d of None \<Rightarrow> (Inl ''TypeError'', w) | Some d' \<Rightarrow> (Inr d', w)),
      match_pattern = spec_match_pattern example_inst,
      rank_query_candidates = (\<lambda>sc cs w. (Inr (rev cs), w)),
      get_result =
        (\<lambda>c include_name w.
           (Inr (if c = ''ERT:Emma'' then RowGroups [[''Jane Austen'']] else NoResult),
            (fst w + 1, snd w + 1 / 2))),
      num_queries_executed = (\<lambda>r w. fst w),
      total_query_time = (\<lambda>r w. snd w),
      init_from_config = (\<lambda>cls params idx w. (Inr (), w))\<rparr>"

definition example_parameters :: "string parameters" where
  "example_parameters =
     \<lparr>entity_linker_class = ''EntityLinker'', param_relation_oracle = None,
      settings = ''default''\<rparr>"

definition example_scorer :: "string scorer" where
  "example_scorer = \<lparr>scorer_id = 5, scorer_parameters = example_parameters\<rparr>"

text \<open>A second scorer: the same entity linker class, other parameters.\<close>

definition oracle_scorer :: "string scorer" where
  "oracle_scorer =
     \<lparr>scorer_id = 8,
      scorer_parameters = example_parameters\<lparr>param_relation_oracle := Some ''oracle''\<rparr>\<rparr>"

text \<open>A third scorer, which asks for another entity linker class.\<close>

definition other_scorer :: "string scorer" where
  "other_scorer =
     \<lparr>scorer_id = 9,
      scorer_parameters = example_parameters\<lparr>entity_linker_class := ''EntityOracle''\<rparr>\<rparr>"

text \<open>
  The state before the translator is constructed: the objects 1 to 9 exist, object 3 is an
  entity linker constructed from the parameters of \<open>example_scorer\<close> and the index 6.
\<close>

definition example_state0 :: "(int \<times> real, string) state" where
  "example_state0 =
     \<lparr>next_ref = 10,
      linkers = [3 \<mapsto> \<lparr>linker_class = ''EntityLinker'', linker_parameters = example_parameters,
                        linker_entity_index = 6\<rparr>],
      extender_parameters = Map.empty,
      trace = [],
      world = (0, 0)\<rparr>"

definition example_translator :: "string translator" where
  "example_translator = fst (QueryTranslator_init 1 2 3 4 example_scorer 6 7 example_state0)"

definition example_state :: "(int \<times> real, string) state" where
  "example_state = snd (QueryTranslator_init 1 2 3 4 example_scorer 6 7 example_state0)"

text \<open>
  The same installation with a backend that has rows for the three-hop candidate too, and
  the same installation with entity linker classes whose construction fails.
\<close>

definition rich_env :: "(int \<times> real, string) env" where
  "rich_env =
     example_env
       \<lparr>get_result :=
          (\<lambda>c include_name w.
             (Inr (if c = ''ERMRT:Emma'' then NoResult else RowGroups [[''Jane Austen'']]),
              (fst w + 1, snd w + 1 / 2)))\<rparr>"

definition failing_env :: "(int \<times> real, string) env" where
  "failing_env =
     example_env\<lparr>init_from_config := (\<lambda>cls params idx w. (Inl ''IOError'', w))\<rparr>"

section \<open>Properties\<close>

subsection \<open>Runs that return\<close>

lemma and_then_Inr:
  "and_then m f s = (Inr b, s') \<longleftrightarrow> (\<exists>a s1. m s = (Inr a, s1) \<and> f a s1 = (Inr b, s'))"
  by (auto simp: and_then_def split: prod.splits sum.splits)

lemma call_Inr:
  "call f s = (Inr a, s') \<longleftrightarrow> (\<exists>w. f (world s) = (Inr a, w) \<and> s' = s\<lparr>world := w\<rparr>)"
  by (auto simp: call_def split: prod.splits sum.splits)

lemma emit_Inr: "emit ev s = (Inr u, s') \<longleftrightarrow> s' = s\<lparr>trace := trace s @ [ev]\<rparr>"
  by (auto simp: emit_def)

lemma return_Inr: "return a s = (Inr b, s') \<longleftrightarrow> b = a \<and> s' = s"
  by (auto simp: return_def)

lemma observe_Inr: "observe g s = (Inr b, s') \<longleftrightarrow> b = g (world s) \<and> s' = s"
  by (auto simp: observe_def)

lemma lift_Inr: "lift r s = (Inr b, s') \<longleftrightarrow> r = Inr b \<and> s' = s"
  by (auto simp: lift_def)

lemma assign_Inr:
  "assign q a s = (Inr q', s') \<longleftrightarrow>
     q' = setattr q a \<and> s' = s\<lparr>trace := trace s @ [Assigned (field_of a)]\<rparr>"
  by (auto simp: assign_def)

lemmas run_Inr = and_then_Inr call_Inr emit_Inr return_Inr observe_Inr lift_Inr assign_Inr

subsection \<open>Steady computations\<close>

lemma steady_and_then:
  assumes m: "steady m" and f: "\<And>a. steady (f a)"
  shows "steady (and_then m f)"
  unfolding steady_def
proof (intro allI impI)
  fix s r s'
  assume run: "and_then m f s = (r, s')"
  obtain r1 s1 where m1: "m s = (r1, s1)" by (cases "m s")
  from m m1 have keep1: "r1 \<noteq> Inl ZeroDivisionError" "next_ref s1 = next_ref s"
    "linkers s1 = linkers s" "extender_parameters s1 = extender_parameters s"
    unfolding steady_def by blast+
  show "r \<noteq> Inl ZeroDivisionError \<and> next_ref s' = next_ref s \<and> linkers s' = linkers s \<and>
        extender_parameters s' = extender_parameters s"
  proof (cases r1)
    case (Inl e)
    with run m1 have "r = Inl e" "s' = s1" by (simp_all add: and_then_def)
    with keep1 Inl show ?thesis by simp
  next
    case (Inr a)
    with run m1 have "f a s1 = (r, s')" by (simp add: and_then_def)
    with f [of a] have "r \<noteq> Inl ZeroDivisionError" "next_ref s' = next_ref s1"
      "linkers s' = linkers s1" "extender_parameters s' = extender_parameters s1"
      unfolding steady_def by blast+
    with keep1 show ?thesis by simp
  qed
qed

lemma steady_call: "steady (call f)"
  by (auto simp: steady_def call_def split: prod.splits sum.splits)

lemma steady_call_state: "steady (\<lambda>s. call (f s) s)"
  by (auto simp: steady_def call_def split: prod.splits sum.splits)

lemma steady_emit: "steady (emit ev)"
  by (auto simp: steady_def emit_def)

lemma steady_assign: "steady (assign q a)"
  by (auto simp: steady_def assign_def)

lemma steady_return: "steady (return a)"
  by (auto simp: steady_def return_def)

lemma steady_observe: "steady (observe g)"
  by (auto simp: steady_def observe_def)

lemma steady_if: "steady a \<Longrightarrow> steady b \<Longrightarrow> steady (if c then a else b)"
  by simp

lemma steady_case_prod: "(\<And>a b. steady (f a b)) \<Longrightarrow> steady (case p of (a, b) \<Rightarrow> f a b)"
  by (cases p) simp

lemma epsilon_int_nonzero: "real_of_int n + 1 / 1000 \<noteq> 0"
proof (cases "0 \<le> n")
  case True
  then have "0 \<le> real_of_int n" by simp
  then show ?thesis by linarith
next
  case False
  then have "n \<le> - 1" by linarith
  then have "real_of_int n \<le> real_of_int (- 1)" by (simp only: of_int_le_iff)
  then show ?thesis by simp
qed

lemma truediv_epsilon_int: "truediv a (real_of_int n + 0.001) = Inr (a / (real_of_int n + 0.001))"
  using epsilon_int_nonzero [of n] by (simp add: truediv_def)

lemma truediv_epsilon_nat: "truediv a (real n + 0.001) = Inr (a / (real n + 0.001))"
proof -
  have "0 \<le> real n" by simp
  then have "real n + 1 / 1000 \<noteq> 0" by linarith
  then show ?thesis by (simp add: truediv_def)
qed

lemma steady_average_int: "steady (lift (truediv a (real_of_int n + 0.001)))"
  using truediv_epsilon_int [of a n] by (simp add: steady_def lift_def)

lemma steady_average_nat: "steady (lift (truediv a (real n + 0.001)))"
  using truediv_epsilon_nat [of a n] by (simp add: steady_def lift_def)

lemmas steady_intros =
  steady_and_then steady_call steady_call_state steady_emit steady_assign steady_return
  steady_observe
  steady_if steady_case_prod steady_average_int steady_average_nat

lemma steady_parse_and_identify_entities: "steady (parse_and_identify_entities env t query_text)"
  unfolding parse_and_identify_entities_def Let_def by (intro steady_intros)

lemma steady_match: "steady (match env tp pm)"
  unfolding match_def by (intro steady_intros)

lemma steady_translate_query: "steady (translate_query env t query_text)"
  unfolding translate_query_def Let_def
  by (intro steady_intros steady_parse_and_identify_entities steady_match)

lemma steady_fetch: "steady (fetch env cs acc)"
proof -
  have "fetch env cs acc s = (r, s') \<Longrightarrow>
          r \<noteq> Inl ZeroDivisionError \<and> next_ref s' = next_ref s \<and> linkers s' = linkers s \<and>
          extender_parameters s' = extender_parameters s" for s r s'
  proof (induction env cs acc s rule: fetch.induct)
    case (1 env ts n s)
    then show ?case by auto
  next
    case (2 env c cs ts n s)
    then show ?case
      by (auto simp: call_def split: prod.splits sum.splits if_splits)
  qed
  then show ?thesis unfolding steady_def by blast
qed

lemma steady_translate_and_execute_query:
  "steady (translate_and_execute_query env t query n_top)"
  unfolding translate_and_execute_query_def Let_def
  by (intro steady_intros steady_translate_query steady_fetch)


subsection \<open>Parsing and entity identification\<close>

text \<open>
  C10. \<open>parse_and_identify_entities\<close> hands the text it is given, as it is, to the parser.
  It returns exactly when the parser and then the entity linker return; the \<open>text\<close> of
  the query is then what \<open>str.lower\<close> makes of the text of the parsed document, its
  \<open>tokens\<close> are the document parsed from the text as given, and its entities are those
  the linker identified in this document.
\<close>

theorem parse_and_identify_entities_parses_raw_text:
  "parse_and_identify_entities env t query_text s = (Inr q, s') \<longleftrightarrow>
     (\<exists>query_doc w1 entities w2.
        nlp_call env (nlp t) query_text (world s) = (Inr query_doc, w1) \<and>
        identify_entities_in_tokens env (entity_linker t) (linkers s (entity_linker t))
          query_doc w1 = (Inr entities, w2) \<and>
        q = \<lparr>text' = lower env (doc_text env query_doc), target_type = None,
             tokens = Some query_doc, content_tokens = None,
             identified_entities = Some entities, relation_oracle = None,
             is_count_query = False\<rparr> \<and>
        s' = s\<lparr>trace := trace s @ [Query_created, Assigned Tokens, Assigned Identified_entities],
               world := w2\<rparr>)"
  unfolding parse_and_identify_entities_def
  by (auto simp: run_Inr Let_def Query_init_def)

theorem parse_and_identify_entities_parses_raw_text_witness:
  "parse_and_identify_entities example_env example_translator ''Who wrote Emma'' example_state =
     (Inr \<lparr>text' = ''who wrote emma'', target_type = None, tokens = Some ''Who wrote Emma'',
           content_tokens = None, identified_entities = Some [''Emma''],
           relation_oracle = None, is_count_query = False\<rparr>,
      example_state\<lparr>trace := [Query_created, Assigned Tokens, Assigned Identified_entities],
                    world := (0, 0)\<rparr>)"
  by (simp add: parse_and_identify_entities_parses_raw_text example_env_def
      example_translator_def example_state_def example_state0_def QueryTranslator_init_def
      set_parameters_def ascii_lower_def)

subsection \<open>The averages\<close>

text \<open>
  C8. No run of \<open>translate_and_execute_query\<close> ends in a division by zero: the two
  averages divide by a count plus one thousandth, which is never zero. With no backend
  query, and with no translation, the average is the time divided by one thousandth.
\<close>

theorem averages_never_divide_by_zero:
  "fst (translate_and_execute_query env t query n_top s) \<noteq> Inl ZeroDivisionError \<and>
   truediv translation_time (real_of_int 0 + 0.001) = Inr (translation_time / 0.001) \<and>
   truediv result_fetch_time (real (length ([] :: 'v TranslationResult list)) + 0.001) =
     Inr (result_fetch_time / 0.001)"
proof -
  have "fst (translate_and_execute_query env t query n_top s) \<noteq> Inl ZeroDivisionError"
    using steady_translate_and_execute_query [of env t query n_top]
    unfolding steady_def by (metis prod.collapse)
  moreover have "truediv translation_time (real_of_int 0 + 0.001) = Inr (translation_time / 0.001)"
    using truediv_epsilon_int [of translation_time 0] by simp
  moreover have "truediv result_fetch_time
      (real (length ([] :: 'v TranslationResult list)) + 0.001) = Inr (result_fetch_time / 0.001)"
    using truediv_epsilon_nat [of result_fetch_time 0] by simp
  ultimately show ?thesis by blast
qed


subsection \<open>Running the small installation\<close>

lemmas model_defs =
  translate_query_def parse_and_identify_entities_def match_def and_then_def call_def emit_def
  return_def observe_def lift_def assign_def Let_def Query_init_def QueryPatternMatcher_def
  ascii_lower_def get_parameters_def set_parameters_def QueryTranslator_init_def

lemmas example_defs =
  example_env_def example_translator_def example_state_def example_state0_def
  example_scorer_def example_parameters_def example_inst_def spec_match_pattern_def

lemma example_translate_query:
  "translate_query example_env example_translator ''Who wrote Emma'' example_state =
     (Inr (\<lparr>text' = ''who wrote emma'', target_type = Some ''person'',
            tokens = Some ''Who wrote Emma'', content_tokens = Some ''Who wrote Emma'',
            identified_entities = Some [''Emma''], relation_oracle = None,
            is_count_query = False\<rparr>,
           [''ERT:Emma'', ''ERMRT:Emma'', ''ERMRERT:Emma'']),
      example_state\<lparr>trace := translation_events ''Who wrote Emma'', world := (3, 3 / 4)\<rparr>)"
  by (simp add: model_defs example_defs translation_events_def)

lemma example_translate_query_no_entities:
  "translate_query example_env example_translator ''who wrote emma'' example_state =
     (Inr (\<lparr>text' = ''who wrote emma'', target_type = Some ''person'',
            tokens = Some ''who wrote emma'', content_tokens = Some ''who wrote emma'',
            identified_entities = Some [], relation_oracle = None,
            is_count_query = False\<rparr>,
           []),
      example_state\<lparr>trace := translation_events ''who wrote emma'', world := (0, 0)\<rparr>)"
  by (simp add: model_defs example_defs translation_events_def)

text \<open>
  A question in which the linker finds no entity: no backend query is run and nothing is
  translated, and both averages are logged as 0.
\<close>

lemma example_no_backend_query:
  "translate_and_execute_query example_env example_translator ''who wrote emma'' 200
     example_state =
     (Inr (\<lparr>text' = ''who wrote emma'', target_type = Some ''person'',
            tokens = Some ''who wrote emma'', content_tokens = Some ''who wrote emma'',
            identified_entities = Some [], relation_oracle = None,
            is_count_query = False\<rparr>,
           []),
      example_state
        \<lparr>trace := translation_events ''who wrote emma'' @
           [Log_translation_stats 0 0 0, Log_ranking 0, Log_fetching, Log_fetch_stats 0 0 0 0,
            Log_done ''who wrote emma''],
         world := (0, 0)\<rparr>)"
  apply (simp add: translate_and_execute_query_def and_then_def observe_def lift_def emit_def
      return_def call_def example_translate_query_no_entities truediv_def slice_to_def)
  apply (simp add: example_env_def example_state_def example_state0_def
      QueryTranslator_init_def set_parameters_def)
  apply (simp add: and_then_def observe_def lift_def emit_def return_def call_def)
  done

subsection \<open>Candidate generation\<close>

text \<open>
  C3. When \<open>translate_query\<close> returns, the three families were matched one after the
  other, ERT, then ERMRT, then ERMRERT, on the query that is returned, and the candidate
  list is the three match lists appended in this order, whatever their lengths.
\<close>

theorem translate_query_concatenation:
  assumes "translate_query env t query_text s = (Inr (query, candidates), s')"
  shows "\<exists>w1 ert_matches w2 ermrt_matches w3 ermrert_matches.
           match_pattern env ERT (QueryPatternMatcher query (query_extender t) (backend t))
             (extender_parameters s (query_extender t)) w1 = (Inr ert_matches, w2) \<and>
           match_pattern env ERMRT (QueryPatternMatcher query (query_extender t) (backend t))
             (extender_parameters s (query_extender t)) w2 = (Inr ermrt_matches, w3) \<and>
           match_pattern env ERMRERT (QueryPatternMatcher query (query_extender t) (backend t))
             (extender_parameters s (query_extender t)) w3 = (Inr ermrert_matches, world s') \<and>
           candidates = ert_matches @ ermrt_matches @ ermrert_matches"
  using assms
  unfolding translate_query_def parse_and_identify_entities_def match_def Let_def
  by (auto simp: run_Inr QueryPatternMatcher_def) blast

theorem translate_query_concatenation_witness:
  "\<exists>w1 ert_matches w2 ermrt_matches w3 ermrert_matches.
     match_pattern example_env ERT
       (QueryPatternMatcher
          \<lparr>text' = ''who wrote emma'', target_type = Some ''person'',
            tokens = Some ''Who wrote Emma'', content_tokens = Some ''Who wrote Emma'',
            identified_entities = Some [''Emma''], relation_oracle = None,
            is_count_query = False\<rparr> 2 1)
       (Some example_parameters) w1 = (Inr ert_matches, w2) \<and>
     match_pattern example_env ERMRT
       (QueryPatternMatcher
          \<lparr>text' = ''who wrote emma'', target_type = Some ''person'',
            tokens = Some ''Who wrote Emma'', content_tokens = Some ''Who wrote Emma'',
            identified_entities = Some [''Emma''], relation_oracle = None,
            is_count_query = False\<rparr> 2 1)
       (Some example_parameters) w2 = (Inr ermrt_matches, w3) \<and>
     match_pattern example_env ERMRERT
       (QueryPatternMatcher
          \<lparr>text' = ''who wrote emma'', target_type = Some ''person'',
            tokens = Some ''Who wrote Emma'', content_tokens = Some ''Who wrote Emma'',
            identified_entities = Some [''Emma''], relation_oracle = None,
            is_count_query = False\<rparr> 2 1)
       (Some example_parameters) w3 = (Inr ermrert_matches, (3, 3 / 4)) \<and>
     [''ERT:Emma'', ''ERMRT:Emma'', ''ERMRERT:Emma''] = ert_matches @ ermrt_matches @ ermrert_matches"
  using translate_query_concatenation [OF example_translate_query]
  by (simp add: example_translator_def example_state_def example_state0_def
      QueryTranslator_init_def set_parameters_def get_parameters_def example_scorer_def)


text \<open>
  C6. With the pattern matcher of the specification: a query that is returned with no
  identified entity comes with no candidate; and when the parser returns, the linker
  identifies no entity, and the answer-type identifier and the content-token extraction
  return, then \<open>translate_query\<close> returns, with an empty candidate list.
\<close>

theorem translate_query_without_entities:
  assumes "match_pattern env = spec_match_pattern inst"
  shows "(\<forall>query candidates s'.
            translate_query env t query_text s = (Inr (query, candidates), s') \<longrightarrow>
            identified_entities query = Some [] \<longrightarrow> candidates = []) \<and>
         (\<forall>query_doc w1 w2 tt w3 ct w4.
            nlp_call env (nlp t) query_text (world s) = (Inr query_doc, w1) \<longrightarrow>
            identify_entities_in_tokens env (entity_linker t) (linkers s (entity_linker t))
              query_doc w1 = (Inr [], w2) \<longrightarrow>
            identify_target env (answer_type_identifier t)
              ((Query_init env (doc_text env query_doc))
                 \<lparr>tokens := Some query_doc, identified_entities := Some []\<rparr>) w2
              = (Inr tt, w3) \<longrightarrow>
            get_content_tokens env (Some query_doc) w3 = (Inr ct, w4) \<longrightarrow>
            translate_query env t query_text s =
              (Inr (\<lparr>text' = lower env (doc_text env query_doc), target_type = tt,
                     tokens = Some query_doc, content_tokens = Some ct,
                     identified_entities = Some [],
                     relation_oracle = param_relation_oracle (get_parameters (scorer t)),
                     is_count_query = False\<rparr>, []),
               s\<lparr>trace := trace s @ translation_events query_text, world := w4\<rparr>))"
proof (intro conjI allI impI)
  fix query candidates s'
  assume "translate_query env t query_text s = (Inr (query, candidates), s')"
    and "identified_entities query = Some []"
  then show "candidates = []"
    unfolding translate_query_def parse_and_identify_entities_def match_def Let_def
    by (auto simp: run_Inr QueryPatternMatcher_def assms spec_match_pattern_def)
next
  fix query_doc w1 w2 tt w3 ct w4
  assume "nlp_call env (nlp t) query_text (world s) = (Inr query_doc, w1)"
    and "identify_entities_in_tokens env (entity_linker t) (linkers s (entity_linker t))
           query_doc w1 = (Inr [], w2)"
    and "identify_target env (answer_type_identifier t)
           ((Query_init env (doc_text env query_doc))
              \<lparr>tokens := Some query_doc, identified_entities := Some []\<rparr>) w2
         = (Inr tt, w3)"
    and "get_content_tokens env (Some query_doc) w3 = (Inr ct, w4)"
  then show "translate_query env t query_text s =
      (Inr (\<lparr>text' = lower env (doc_text env query_doc), target_type = tt,
             tokens = Some query_doc, content_tokens = Some ct,
             identified_entities = Some [],
             relation_oracle = param_relation_oracle (get_parameters (scorer t)),
             is_count_query = False\<rparr>, []),
       s\<lparr>trace := trace s @ translation_events query_text, world := w4\<rparr>)"
    unfolding translate_query_def parse_and_identify_entities_def match_def Let_def
    by (simp add: and_then_def call_def emit_def return_def assign_def QueryPatternMatcher_def
        assms spec_match_pattern_def Query_init_def translation_events_def)
qed

theorem translate_query_without_entities_witness:
  "translate_query example_env example_translator ''who wrote emma'' example_state =
     (Inr (\<lparr>text' = ''who wrote emma'', target_type = Some ''person'',
            tokens = Some ''who wrote emma'', content_tokens = Some ''who wrote emma'',
            identified_entities = Some [], relation_oracle = None,
            is_count_query = False\<rparr>, []),
      example_state\<lparr>trace := trace example_state @ translation_events ''who wrote emma'',
                    world := (0, 0)\<rparr>)"
proof -
  have matcher: "match_pattern example_env = spec_match_pattern example_inst"
    by (simp add: example_env_def)
  have "nlp_call example_env (nlp example_translator) ''who wrote emma'' (world example_state)
          = (Inr ''who wrote emma'', (0, 0))"
    and "identify_entities_in_tokens example_env (entity_linker example_translator)
           (linkers example_state (entity_linker example_translator)) ''who wrote emma'' (0, 0)
          = (Inr [], (0, 0))"
    and "identify_target example_env (answer_type_identifier example_translator)
           ((Query_init example_env (doc_text example_env ''who wrote emma''))
              \<lparr>tokens := Some ''who wrote emma'', identified_entities := Some []\<rparr>) (0, 0)
          = (Inr (Some ''person''), (0, 0))"
    and "get_content_tokens example_env (Some ''who wrote emma'') (0, 0)
          = (Inr ''who wrote emma'', (0, 0))"
    by (simp_all add: example_defs model_defs)
  with translate_query_without_entities [OF matcher, of example_translator
      "''who wrote emma''" example_state]
  have "translate_query example_env example_translator ''who wrote emma'' example_state =
     (Inr (\<lparr>text' = lower example_env (doc_text example_env ''who wrote emma''),
            target_type = Some ''person'',
            tokens = Some ''who wrote emma'', content_tokens = Some ''who wrote emma'',
            identified_entities = Some [],
            relation_oracle = param_relation_oracle (get_parameters (scorer example_translator)),
            is_count_query = False\<rparr>, []),
      example_state\<lparr>trace := trace example_state @ translation_events ''who wrote emma'',
                    world := (0, 0)\<rparr>)"
    by blast
  then show ?thesis
    by (simp add: example_defs model_defs)
qed


subsection \<open>The life of a query\<close>

lemma emits_translate_query:
  "emits (translate_query env t query_text) (translation_events query_text)"
  unfolding emits_def translate_query_def parse_and_identify_entities_def match_def
    translation_events_def Let_def
  by (auto simp: and_then_def call_def emit_def return_def assign_def
      split: prod.splits sum.splits)

lemma assignments_of_prefix:
  assumes "prefix evs (translation_events query_text)"
  shows "prefix (assignments evs)
           [Tokens, Identified_entities, Target_type, Relation_oracle, Content_tokens] \<and>
         assignments (dropWhile (\<lambda>ev. ev \<noteq> Matcher_created) evs) = []"
proof -
  from assms have "evs \<in> set (prefixes (translation_events query_text))"
    by (simp only: in_set_prefixes)
  then show ?thesis
    by (auto simp: translation_events_def)
qed

lemma translate_query_returns:
  assumes "translate_query env t query_text s = (Inr (query, candidates), s')"
  shows "\<exists>query_doc entities tt ct w4 ert_matches w5 ermrt_matches w6 ermrert_matches.
           query = foldl setattr (Query_init env (doc_text env query_doc))
             [Set_tokens (Some query_doc), Set_identified_entities (Some entities),
              Set_target_type tt,
              Set_relation_oracle (param_relation_oracle (get_parameters (scorer t))),
              Set_content_tokens (Some ct)] \<and>
           match_pattern env ERT (QueryPatternMatcher query (query_extender t) (backend t))
             (extender_parameters s (query_extender t)) w4 = (Inr ert_matches, w5) \<and>
           match_pattern env ERMRT (QueryPatternMatcher query (query_extender t) (backend t))
             (extender_parameters s (query_extender t)) w5 = (Inr ermrt_matches, w6) \<and>
           match_pattern env ERMRERT (QueryPatternMatcher query (query_extender t) (backend t))
             (extender_parameters s (query_extender t)) w6 = (Inr ermrert_matches, world s')"
  using assms
  unfolding translate_query_def parse_and_identify_entities_def match_def Let_def
  apply (clarsimp simp: run_Inr QueryPatternMatcher_def)
  apply blast
  done

text \<open>
  C5, as the code has it. A run of \<open>translate_query\<close> assigns the attributes of the query
  in the order tokens, identified entities, target type, relation oracle, content tokens:
  a run that raises makes the first few of these assignments, a run that returns all
  five, and the query it returns is the new \<open>Query\<close> with these five assignments made in
  this order. The query is not changed once the pattern matcher has been created: nothing is
  assigned after that, and the three matches all see the query that is returned.
\<close>

theorem translate_query_assignment_order:
  assumes "translate_query env t query_text s = (r, s')"
  shows "\<exists>evs. trace s' = trace s @ evs \<and>
           prefix (assignments evs)
             [Tokens, Identified_entities, Target_type, Relation_oracle, Content_tokens] \<and>
           assignments (dropWhile (\<lambda>ev. ev \<noteq> Matcher_created) evs) = [] \<and>
           (\<forall>query candidates. r = Inr (query, candidates) \<longrightarrow>
              (\<exists>query_doc entities tt ct writes w4 ert_matches w5 ermrt_matches w6
                  ermrert_matches.
                 writes =
                   [Set_tokens (Some query_doc), Set_identified_entities (Some entities),
                    Set_target_type tt,
                    Set_relation_oracle (param_relation_oracle (get_parameters (scorer t))),
                    Set_content_tokens (Some ct)] \<and>
                 assignments evs = map field_of writes \<and>
                 query = foldl setattr (Query_init env (doc_text env query_doc)) writes \<and>
                 Matcher_created \<in> set evs \<and>
                 match_pattern env ERT (QueryPatternMatcher query (query_extender t) (backend t))
                   (extender_parameters s (query_extender t)) w4 = (Inr ert_matches, w5) \<and>
                 match_pattern env ERMRT
                   (QueryPatternMatcher query (query_extender t) (backend t))
                   (extender_parameters s (query_extender t)) w5 = (Inr ermrt_matches, w6) \<and>
                 match_pattern env ERMRERT
                   (QueryPatternMatcher query (query_extender t) (backend t))
                   (extender_parameters s (query_extender t)) w6
                   = (Inr ermrert_matches, world s')))"
proof -
  from emits_translate_query [of env t query_text] assms
  obtain evs where evs: "trace s' = trace s @ evs" "prefix evs (translation_events query_text)"
    "isl r \<or> evs = translation_events query_text"
    unfolding emits_def by blast
  have "\<exists>query_doc entities tt ct writes w4 ert_matches w5 ermrt_matches w6 ermrert_matches.
          writes =
            [Set_tokens (Some query_doc), Set_identified_entities (Some entities),
             Set_target_type tt,
             Set_relation_oracle (param_relation_oracle (get_parameters (scorer t))),
             Set_content_tokens (Some ct)] \<and>
          assignments evs = map field_of writes \<and>
          query = foldl setattr (Query_init env (doc_text env query_doc)) writes \<and>
          Matcher_created \<in> set evs \<and>
          match_pattern env ERT (QueryPatternMatcher query (query_extender t) (backend t))
            (extender_parameters s (query_extender t)) w4 = (Inr ert_matches, w5) \<and>
          match_pattern env ERMRT (QueryPatternMatcher query (query_extender t) (backend t))
            (extender_parameters s (query_extender t)) w5 = (Inr ermrt_matches, w6) \<and>
          match_pattern env ERMRERT (QueryPatternMatcher query (query_extender t) (backend t))
            (extender_parameters s (query_extender t)) w6 = (Inr ermrert_matches, world s')"
    if ret: "r = Inr (query, candidates)" for query candidates
  proof -
    from ret evs(3) have all: "evs = translation_events query_text" by auto
    from assms ret have "translate_query env t query_text s = (Inr (query, candidates), s')"
      by simp
    from translate_query_returns [OF this]
    obtain query_doc entities tt ct w4 ert_matches w5 ermrt_matches w6 ermrert_matches where
      q: "query = foldl setattr (Query_init env (doc_text env query_doc))
             [Set_tokens (Some query_doc), Set_identified_entities (Some entities),
              Set_target_type tt,
              Set_relation_oracle (param_relation_oracle (get_parameters (scorer t))),
              Set_content_tokens (Some ct)]"
      and m: "match_pattern env ERT (QueryPatternMatcher query (query_extender t) (backend t))
             (extender_parameters s (query_extender t)) w4 = (Inr ert_matches, w5)"
        "match_pattern env ERMRT (QueryPatternMatcher query (query_extender t) (backend t))
             (extender_parameters s (query_extender t)) w5 = (Inr ermrt_matches, w6)"
        "match_pattern env ERMRERT (QueryPatternMatcher query (query_extender t) (backend t))
             (extender_parameters s (query_extender t)) w6 = (Inr ermrert_matches, world s')"
      by blast
    have a: "assignments evs = map field_of
        [Set_tokens (Some query_doc), Set_identified_entities (Some entities),
         Set_target_type tt,
         Set_relation_oracle (param_relation_oracle (get_parameters (scorer t))),
         Set_content_tokens (Some ct)]"
      and c: "Matcher_created \<in> set evs"
      unfolding all by (simp_all add: translation_events_def)
    from q m a c show ?thesis by blast
  qed
  with evs(1) assignments_of_prefix [OF evs(2)] show ?thesis by blast
qed

theorem translate_query_assignment_order_witness:
  "\<exists>evs. translation_events ''Who wrote Emma'' = evs \<and>
     prefix (assignments evs)
       [Tokens, Identified_entities, Target_type, Relation_oracle, Content_tokens] \<and>
     assignments (dropWhile (\<lambda>ev. ev \<noteq> Matcher_created) evs) = [] \<and>
     (\<exists>query_doc entities tt ct writes w4 ert_matches w5 ermrt_matches w6 ermrert_matches.
        writes =
          [Set_tokens (Some query_doc), Set_identified_entities (Some entities),
           Set_target_type tt,
           Set_relation_oracle
             (param_relation_oracle (get_parameters (scorer example_translator))),
           Set_content_tokens (Some ct)] \<and>
        assignments evs = map field_of writes \<and>
        \<lparr>text' = ''who wrote emma'', target_type = Some ''person'',
          tokens = Some ''Who wrote Emma'', content_tokens = Some ''Who wrote Emma'',
          identified_entities = Some [''Emma''], relation_oracle = None,
          is_count_query = False\<rparr> =
          foldl setattr (Query_init example_env (doc_text example_env query_doc)) writes \<and>
        Matcher_created \<in> set evs \<and>
        match_pattern example_env ERT
          (QueryPatternMatcher
             \<lparr>text' = ''who wrote emma'', target_type = Some ''person'',
               tokens = Some ''Who wrote Emma'', content_tokens = Some ''Who wrote Emma'',
               identified_entities = Some [''Emma''], relation_oracle = None,
               is_count_query = False\<rparr>
             (query_extender example_translator) (backend example_translator))
          (extender_parameters example_state (query_extender example_translator)) w4
          = (Inr ert_matches, w5) \<and>
        match_pattern example_env ERMRT
          (QueryPatternMatcher
             \<lparr>text' = ''who wrote emma'', target_type = Some ''person'',
               tokens = Some ''Who wrote Emma'', content_tokens = Some ''Who wrote Emma'',
               identified_entities = Some [''Emma''], relation_oracle = None,
               is_count_query = False\<rparr>
             (query_extender example_translator) (backend example_translator))
          (extender_parameters example_state (query_extender example_translator)) w5
          = (Inr ermrt_matches, w6) \<and>
        match_pattern example_env ERMRERT
          (QueryPatternMatcher
             \<lparr>text' = ''who wrote emma'', target_type = Some ''person'',
               tokens = Some ''Who wrote Emma'', content_tokens = Some ''Who wrote Emma'',
               identified_entities = Some [''Emma''], relation_oracle = None,
               is_count_query = False\<rparr>
             (query_extender example_translator) (backend example_translator))
          (extender_parameters example_state (query_extender example_translator)) w6
          = (Inr ermrert_matches, (3, 3 / 4)))"
  using translate_query_assignment_order [OF example_translate_query]
  by (simp add: example_state_def example_state0_def QueryTranslator_init_def
      set_parameters_def)

text \<open>
  C5, as the claim has it, with the content tokens before the relation oracle: not so on
  the small installation.
\<close>

theorem translate_query_assignment_order_counterexample:
  "assignments (trace (snd (translate_query example_env example_translator ''Who wrote Emma''
       example_state))) =
     [Tokens, Identified_entities, Target_type, Relation_oracle, Content_tokens] \<and>
   assignments (trace (snd (translate_query example_env example_translator ''Who wrote Emma''
       example_state))) \<noteq>
     [Tokens, Identified_entities, Target_type, Content_tokens, Relation_oracle]"
  by (simp add: example_translate_query translation_events_def)

subsection \<open>Execution\<close>

lemma count_rows_falsy: "\<not> truthy r \<Longrightarrow> count_rows r = 0"
  by (cases r) simp_all

lemma fetch_refines:
  "fetch env cs (acc, n) s =
     (case fetch_all env cs (world s) of
        (Inl exn, w) \<Rightarrow> (Inl (Raised exn), s\<lparr>world := w\<rparr>)
      | (Inr rs, w) \<Rightarrow>
          (Inr (acc @ non_empty_translations cs rs, n + sum_list (map count_rows rs)),
           s\<lparr>world := w\<rparr>))"
proof (induction cs arbitrary: acc n s)
  case Nil
  then show ?case by (simp add: non_empty_translations_def)
next
  case (Cons c cs)
  show ?case
  proof (cases "get_result env c True (world s)")
    case (Pair r w1)
    show ?thesis
    proof (cases r)
      case (Inl exn)
      with Pair show ?thesis by (simp add: call_def)
    next
      case (Inr res)
      with Pair Cons [of _ _ "s\<lparr>world := w1\<rparr>"] show ?thesis
        by (auto simp: call_def non_empty_translations_def count_rows_falsy
            split: prod.splits sum.splits)
    qed
  qed
qed

lemma non_empty_translations_subseq:
  "subseq (map query_candidate (non_empty_translations cs rs)) cs"
proof -
  have "map query_candidate (non_empty_translations cs rs) =
          map fst (filter (\<lambda>(c, r). truthy r) (zip cs rs))"
    by (simp add: non_empty_translations_def case_prod_beta comp_def)
  moreover have "subseq (map fst (filter (\<lambda>(c, r). truthy r) (zip cs rs))) (map fst (zip cs rs))"
    by (intro subseq_map subseq_filter_left)
  moreover have "subseq (map fst (zip cs rs)) cs"
    by (simp add: map_fst_zip_take prefix_imp_subseq take_is_prefix)
  ultimately show ?thesis by (metis subseq_order.order_trans)
qed

lemma non_empty_translations_truthy:
  "tr \<in> set (non_empty_translations cs rs) \<Longrightarrow> truthy (query_result_rows tr)"
  by (auto simp: non_empty_translations_def)

lemma length_non_empty_translations:
  "length (non_empty_translations cs rs) \<le> length cs"
proof -
  have "length (non_empty_translations cs rs) \<le> length (zip cs rs)"
    unfolding non_empty_translations_def by (simp only: length_map length_filter_le)
  also have "\<dots> \<le> length cs" by simp
  finally show ?thesis .
qed

lemma length_slice_to: "0 \<le> n \<Longrightarrow> int (length (slice_to xs n)) \<le> n"
  by (simp add: slice_to_def)

lemma and_then_average_int:
  "and_then (lift (truediv a (real_of_int n + 0.001))) f = f (a / (real_of_int n + 0.001))"
  by (rule ext) (simp only: and_then_def lift_def truediv_epsilon_int prod.case sum.case)

lemma and_then_average_nat:
  "and_then (lift (truediv a (real n + 0.001))) f = f (a / (real n + 0.001))"
  by (rule ext) (simp only: and_then_def lift_def truediv_epsilon_nat prod.case sum.case)

lemma translate_and_execute_query_result:
  "fst (translate_and_execute_query env t query n_top s) =
     (case translate_query env t query s of
        (Inl e, s1) \<Rightarrow> Inl e
      | (Inr (parsed_query, query_candidates), s1) \<Rightarrow>
          (case rank_query_candidates env (scorer t) query_candidates (world s1) of
             (Inl exn, w2) \<Rightarrow> Inl (Raised exn)
           | (Inr ranked, w2) \<Rightarrow>
               (case fetch_all env (slice_to ranked n_top) w2 of
                  (Inl exn, w3) \<Rightarrow> Inl (Raised exn)
                | (Inr results, w3) \<Rightarrow>
                    Inr (parsed_query,
                         non_empty_translations (slice_to ranked n_top) results))))"
  unfolding translate_and_execute_query_def Let_def and_then_average_int and_then_average_nat
  by (simp add: and_then_def call_def emit_def return_def observe_def fetch_refines
      split: prod.splits sum.splits)

lemma returns_iff_fst: "(\<exists>s'. p = (r, s')) \<longleftrightarrow> fst p = r"
  by (cases p) simp

lemma length_fetch_all: "fetch_all env cs w = (Inr rs, w') \<Longrightarrow> length rs = length cs"
  by (induction cs arbitrary: w rs) (auto split: prod.splits sum.splits)

lemma rich_translate_query:
  "translate_query rich_env example_translator ''Who wrote Emma'' example_state =
     (Inr (\<lparr>text' = ''who wrote emma'', target_type = Some ''person'',
            tokens = Some ''Who wrote Emma'', content_tokens = Some ''Who wrote Emma'',
            identified_entities = Some [''Emma''], relation_oracle = None,
            is_count_query = False\<rparr>,
           [''ERT:Emma'', ''ERMRT:Emma'', ''ERMRERT:Emma'']),
      example_state\<lparr>trace := translation_events ''Who wrote Emma'', world := (3, 3 / 4)\<rparr>)"
  by (simp add: model_defs example_defs rich_env_def translation_events_def)

lemma rich_results:
  "fst (translate_and_execute_query rich_env example_translator ''Who wrote Emma'' 2
          example_state) =
     Inr (\<lparr>text' = ''who wrote emma'', target_type = Some ''person'',
            tokens = Some ''Who wrote Emma'', content_tokens = Some ''Who wrote Emma'',
            identified_entities = Some [''Emma''], relation_oracle = None,
            is_count_query = False\<rparr>,
          [\<lparr>query_candidate = ''ERMRERT:Emma'',
            query_result_rows = RowGroups [[''Jane Austen'']]\<rparr>])"
  unfolding translate_and_execute_query_result rich_translate_query
  by (simp add: rich_env_def example_env_def slice_to_def non_empty_translations_def)

text \<open>
  C2. With a limit that is not negative, \<open>translate_and_execute_query\<close> returns exactly
  when \<open>translate_query\<close>, the ranker and the fetch of each of the first \<open>n_top\<close>
  candidates of the ranked list return, one candidate after the other in rank order, each
  candidate fetched once. What it returns is then the non-empty translations of these
  first \<open>n_top\<close> candidates: the candidates whose result is falsy are left out and raise
  nothing, the others keep the order of the ranking, each with its result.
\<close>

theorem translate_and_execute_query_rank_order:
  assumes "0 \<le> n_top"
  shows
  "(\<exists>s'. translate_and_execute_query env t query n_top s = (Inr (parsed_query, ts), s')) \<longleftrightarrow>
   (\<exists>query_candidates s1 ranked w2 results w3.
      translate_query env t query s = (Inr (parsed_query, query_candidates), s1) \<and>
      rank_query_candidates env (scorer t) query_candidates (world s1) = (Inr ranked, w2) \<and>
      fetch_all env (take (nat n_top) ranked) w2 = (Inr results, w3) \<and>
      length results = length (take (nat n_top) ranked) \<and>
      ts = non_empty_translations (take (nat n_top) ranked) results \<and>
      subseq (map query_candidate ts) (take (nat n_top) ranked) \<and>
      (\<forall>tr \<in> set ts. truthy (query_result_rows tr)))"
  unfolding returns_iff_fst translate_and_execute_query_result
  using assms
  by (auto simp: slice_to_def non_empty_translations_subseq non_empty_translations_truthy
      length_fetch_all split: prod.splits sum.splits)

theorem translate_and_execute_query_rank_order_witness:
  "rank_query_candidates rich_env (scorer example_translator)
      [''ERT:Emma'', ''ERMRT:Emma'', ''ERMRERT:Emma''] (3, 3 / 4) =
     (Inr [''ERMRERT:Emma'', ''ERMRT:Emma'', ''ERT:Emma''], (3, 3 / 4)) \<and>
   take (nat 2) [''ERMRERT:Emma'', ''ERMRT:Emma'', ''ERT:Emma''] =
     [''ERMRERT:Emma'', ''ERMRT:Emma''] \<and>
   (\<exists>results w3.
      fetch_all rich_env [''ERMRERT:Emma'', ''ERMRT:Emma''] (3, 3 / 4) = (Inr results, w3) \<and>
      length results = 2 \<and>
      [\<lparr>query_candidate = ''ERMRERT:Emma'',
        query_result_rows = RowGroups [[''Jane Austen'']]\<rparr>] =
        non_empty_translations [''ERMRERT:Emma'', ''ERMRT:Emma''] results) \<and>
   subseq [''ERMRERT:Emma''] [''ERMRERT:Emma'', ''ERMRT:Emma''] \<and>
   truthy (RowGroups [[''Jane Austen'' :: string]])"
proof -
  have limit: "(0::int) \<le> 2" by simp
  have run: "\<exists>s'. translate_and_execute_query rich_env example_translator ''Who wrote Emma'' 2
          example_state =
     (Inr (\<lparr>text' = ''who wrote emma'', target_type = Some ''person'',
            tokens = Some ''Who wrote Emma'', content_tokens = Some ''Who wrote Emma'',
            identified_entities = Some [''Emma''], relation_oracle = None,
            is_count_query = False\<rparr>,
          [\<lparr>query_candidate = ''ERMRERT:Emma'',
            query_result_rows = RowGroups [[''Jane Austen'']]\<rparr>]), s')"
    using rich_results by (simp only: returns_iff_fst)
  from iffD1 [OF translate_and_execute_query_rank_order [OF limit] run]
  obtain query_candidates s1 ranked w2 results w3 where
    tq: "translate_query rich_env example_translator ''Who wrote Emma'' example_state =
        (Inr (\<lparr>text' = ''who wrote emma'', target_type = Some ''person'',
            tokens = Some ''Who wrote Emma'', content_tokens = Some ''Who wrote Emma'',
            identified_entities = Some [''Emma''], relation_oracle = None,
            is_count_query = False\<rparr>, query_candidates), s1)"
    and rk: "rank_query_candidates rich_env (scorer example_translator) query_candidates
        (world s1) = (Inr ranked, w2)"
    and fa: "fetch_all rich_env (take (nat 2) ranked) w2 = (Inr results, w3)"
    and len: "length results = length (take (nat 2) ranked)"
    and ts: "[\<lparr>query_candidate = ''ERMRERT:Emma'',
            query_result_rows = RowGroups [[''Jane Austen'']]\<rparr>] =
          non_empty_translations (take (nat 2) ranked) results"
    and sub: "subseq (map query_candidate [\<lparr>query_candidate = ''ERMRERT:Emma'',
            query_result_rows = RowGroups [[''Jane Austen'' :: string]]\<rparr>])
          (take (nat 2) ranked)"
    and tru: "\<forall>tr \<in> set [\<lparr>query_candidate = ''ERMRERT:Emma'',
            query_result_rows = RowGroups [[''Jane Austen'' :: string]]\<rparr>].
          truthy (query_result_rows tr)"
    by blast
  from tq have cands: "query_candidates = [''ERT:Emma'', ''ERMRT:Emma'', ''ERMRERT:Emma'']"
    and s1: "s1 = example_state\<lparr>trace := translation_events ''Who wrote Emma'',
                world := (3, 3 / 4)\<rparr>"
    unfolding rich_translate_query by simp_all
  from rk have ranked: "ranked = [''ERMRERT:Emma'', ''ERMRT:Emma'', ''ERT:Emma'']"
    and w2: "w2 = (3, 3 / 4)"
    unfolding cands s1 by (auto simp: rich_env_def example_env_def)
  have cut: "take (nat 2) [''ERMRERT:Emma'', ''ERMRT:Emma'', ''ERT:Emma''] =
      [''ERMRERT:Emma'', ''ERMRT:Emma'']"
    by (simp add: numeral_2_eq_2)
  from rk have r: "rank_query_candidates rich_env (scorer example_translator)
      [''ERT:Emma'', ''ERMRT:Emma'', ''ERMRERT:Emma''] (3, 3 / 4) =
     (Inr [''ERMRERT:Emma'', ''ERMRT:Emma'', ''ERT:Emma''], (3, 3 / 4))"
    unfolding cands s1 ranked w2 by simp
  from fa len ts sub tru show ?thesis
    unfolding ranked w2 cut using r cut by auto
qed

lemma example_results:
  "fst (translate_and_execute_query example_env example_translator ''Who wrote Emma'' 3
          example_state) =
     Inr (\<lparr>text' = ''who wrote emma'', target_type = Some ''person'',
            tokens = Some ''Who wrote Emma'', content_tokens = Some ''Who wrote Emma'',
            identified_entities = Some [''Emma''], relation_oracle = None,
            is_count_query = False\<rparr>,
          [\<lparr>query_candidate = ''ERT:Emma'',
            query_result_rows = RowGroups [[''Jane Austen'']]\<rparr>])"
  unfolding translate_and_execute_query_result example_translate_query
  by (simp add: example_env_def slice_to_def non_empty_translations_def)

text \<open>
  C1. With a limit that is not negative, \<open>translate_and_execute_query\<close> returns at most
  as many entries as the limit, each with a truthy result; with the limit 0 it returns none.
\<close>

theorem translate_and_execute_query_limit:
  assumes "translate_and_execute_query env t query n_top s = (Inr (parsed_query, ts), s')"
    and "0 \<le> n_top"
  shows "int (length ts) \<le> n_top \<and> (\<forall>tr \<in> set ts. truthy (query_result_rows tr)) \<and>
         (n_top = 0 \<longrightarrow> ts = [])"
proof -
  from assms(1) have "fst (translate_and_execute_query env t query n_top s)
      = Inr (parsed_query, ts)"
    by simp
  then obtain ranked results where ts: "ts = non_empty_translations (slice_to ranked n_top) results"
    unfolding translate_and_execute_query_result
    by (auto split: prod.splits sum.splits)
  have "int (length ts) \<le> int (length (slice_to ranked n_top))"
    unfolding ts using length_non_empty_translations [of "slice_to ranked n_top" results] by simp
  also have "\<dots> \<le> n_top" using assms(2) by (rule length_slice_to)
  finally have len: "int (length ts) \<le> n_top" .
  then have "n_top = 0 \<longrightarrow> ts = []" by auto
  with len show ?thesis
    unfolding ts by (auto simp: non_empty_translations_truthy)
qed

theorem translate_and_execute_query_limit_witness:
  "(0::int) \<le> 3 \<and>
   int (length [\<lparr>query_candidate = ''ERT:Emma'',
                 query_result_rows = RowGroups [[''Jane Austen'']]\<rparr>]) \<le> 3 \<and>
   truthy (RowGroups [[''Jane Austen'' :: string]])"
proof -
  obtain s' where run: "translate_and_execute_query example_env example_translator
      ''Who wrote Emma'' 3 example_state =
     (Inr (\<lparr>text' = ''who wrote emma'', target_type = Some ''person'',
            tokens = Some ''Who wrote Emma'', content_tokens = Some ''Who wrote Emma'',
            identified_entities = Some [''Emma''], relation_oracle = None,
            is_count_query = False\<rparr>,
          [\<lparr>query_candidate = ''ERT:Emma'',
            query_result_rows = RowGroups [[''Jane Austen'']]\<rparr>]), s')"
    using example_results by (metis prod.collapse)
  have limit: "(0::int) \<le> 3" by simp
  from translate_and_execute_query_limit [OF run limit] limit show ?thesis by simp
qed


subsection \<open>Changing the scorer\<close>

lemmas set_scorer_defs =
  set_scorer_def new_entity_linker_def set_parameters_def get_parameters_def type_of_def
  get_scorer_def Let_def

lemma example_set_other_scorer:
  "set_scorer example_env other_scorer example_translator example_state =
     (Inr (),
      example_translator\<lparr>scorer := other_scorer, entity_linker := 10\<rparr>,
      example_state
        \<lparr>next_ref := 11,
         linkers := (linkers example_state)(10 \<mapsto>
           \<lparr>linker_class = ''EntityOracle'', linker_parameters = get_parameters other_scorer,
            linker_entity_index = 6\<rparr>),
         extender_parameters := (extender_parameters example_state)(2 \<mapsto>
           get_parameters other_scorer)\<rparr>)"
  by (simp add: set_scorer_defs example_defs other_scorer_def QueryTranslator_init_def)

lemma example_set_oracle_scorer:
  "set_scorer example_env oracle_scorer example_translator example_state =
     (Inr (),
      example_translator\<lparr>scorer := oracle_scorer\<rparr>,
      example_state
        \<lparr>extender_parameters := (extender_parameters example_state)(2 \<mapsto>
           get_parameters oracle_scorer)\<rparr>)"
  by (simp add: set_scorer_defs example_defs oracle_scorer_def QueryTranslator_init_def)

text \<open>
  C4. After a call \<open>set_scorer(s)\<close> that returns, on a translator whose entity linker is
  an object that exists: \<open>get_scorer()\<close> is \<open>s\<close>; when the class of the entity linker
  held before is not the class \<open>s\<close> asks for, the translator holds an object that did not
  exist before the call, an entity linker of this class constructed from the parameters of
  \<open>s\<close> and the translator's entity index; when it is this class, the translator holds the
  object it held before.
\<close>

theorem set_scorer_entity_linker:
  assumes "set_scorer env scorer' t s = (Inr (), t', s')"
    and "entity_linker t < next_ref s"
  shows "get_scorer t' = scorer' \<and>
         (type_of s (entity_linker t) \<noteq> Some (entity_linker_class (get_parameters scorer')) \<longrightarrow>
            entity_linker t' \<noteq> entity_linker t \<and> \<not> entity_linker t' < next_ref s \<and>
            linkers s' (entity_linker t') =
              Some \<lparr>linker_class = entity_linker_class (get_parameters scorer'),
                    linker_parameters = get_parameters scorer',
                    linker_entity_index = entity_index t\<rparr>) \<and>
         (type_of s (entity_linker t) = Some (entity_linker_class (get_parameters scorer')) \<longrightarrow>
            entity_linker t' = entity_linker t)"
  using assms
  by (auto simp: set_scorer_defs split: if_splits prod.splits sum.splits)

theorem set_scorer_entity_linker_witness:
  "get_scorer (example_translator\<lparr>scorer := other_scorer, entity_linker := 10\<rparr>) = other_scorer \<and>
   (10::nat) \<noteq> entity_linker example_translator \<and> \<not> (10::nat) < next_ref example_state \<and>
   ((linkers example_state)(10 \<mapsto>
       \<lparr>linker_class = ''EntityOracle'', linker_parameters = get_parameters other_scorer,
        linker_entity_index = 6\<rparr>)) 10 =
     Some \<lparr>linker_class = entity_linker_class (get_parameters other_scorer),
           linker_parameters = get_parameters other_scorer,
           linker_entity_index = entity_index example_translator\<rparr>"
proof -
  have live: "entity_linker example_translator < next_ref example_state"
    by (simp add: example_defs QueryTranslator_init_def set_parameters_def)
  have other: "type_of example_state (entity_linker example_translator) \<noteq>
      Some (entity_linker_class (get_parameters other_scorer))"
    by (simp add: example_defs QueryTranslator_init_def set_parameters_def type_of_def
        get_parameters_def other_scorer_def)
  from set_scorer_entity_linker [OF example_set_other_scorer live] other
  show ?thesis by simp
qed

text \<open>
  C9. When the entity linker held is of the class the new scorer asks for, \<open>set_scorer\<close>
  returns, and all it does is to set the scorer and to hand the new parameters to the
  extender: the translator holds the same entity linker, and no entity linker object has
  changed, so that the one held keeps the parameters it was constructed from. Whatever
  the classes, and whether the call returns or raises, the backend, the extender, the
  parser, the entity index and the answer-type identifier of the translator stay the same.
\<close>

theorem set_scorer_same_class:
  assumes "set_scorer env scorer' t s = (r, t', s')"
  shows "(type_of s (entity_linker t) = Some (entity_linker_class (get_parameters scorer')) \<longrightarrow>
            r = Inr () \<and> t' = t\<lparr>scorer := scorer'\<rparr> \<and>
            s' = s\<lparr>extender_parameters :=
                     (extender_parameters s)(query_extender t \<mapsto> get_parameters scorer')\<rparr> \<and>
            entity_linker t' = entity_linker t \<and> linkers s' = linkers s \<and>
            extender_parameters s' (query_extender t') = Some (get_parameters scorer')) \<and>
         backend t' = backend t \<and> query_extender t' = query_extender t \<and> nlp t' = nlp t \<and>
         entity_index t' = entity_index t \<and>
         answer_type_identifier t' = answer_type_identifier t"
  using assms
  by (auto simp: set_scorer_defs split: if_splits prod.splits sum.splits)

theorem set_scorer_same_class_witness:
  "entity_linker (example_translator\<lparr>scorer := oracle_scorer\<rparr>) = 3 \<and>
   map_option linker_parameters (linkers example_state 3) = Some example_parameters \<and>
   ((extender_parameters example_state)(2 \<mapsto> get_parameters oracle_scorer)) 2 =
     Some (get_parameters oracle_scorer) \<and>
   get_parameters oracle_scorer \<noteq> example_parameters"
proof -
  have same: "type_of example_state (entity_linker example_translator) =
      Some (entity_linker_class (get_parameters oracle_scorer))"
    by (simp add: example_defs QueryTranslator_init_def set_parameters_def type_of_def
        get_parameters_def oracle_scorer_def)
  from set_scorer_same_class [OF example_set_oracle_scorer] same
  show ?thesis
    by (simp add: example_defs QueryTranslator_init_def set_parameters_def
        get_parameters_def oracle_scorer_def)
qed


subsection \<open>The extender and the scorer\<close>

lemma set_scorer_wires_extender:
  assumes "set_scorer env scorer' t s = (Inr (), t', s')"
  shows "extender_parameters s' (query_extender t') = Some (get_parameters (scorer t'))"
  using assms
  by (auto simp: set_scorer_defs split: if_splits prod.splits sum.splits)

lemma steady_extender_parameters:
  "steady m \<Longrightarrow> m s = (r, s') \<Longrightarrow> extender_parameters s' = extender_parameters s"
  unfolding steady_def by blast

lemma failing_set_scorer:
  "set_scorer failing_env other_scorer example_translator example_state =
     (Inl (Raised ''IOError''), example_translator\<lparr>scorer := other_scorer\<rparr>, example_state)"
  by (simp add: set_scorer_defs example_defs failing_env_def other_scorer_def
      QueryTranslator_init_def)

text \<open>
  C7, as the code has it. Once the translator is constructed, and after every call of
  \<open>set_scorer\<close> that returns, the parameters the translator's extender holds are the
  parameters of the translator's scorer, and they stay so through the calls of the
  translating methods, until a call of \<open>set_scorer\<close> raises.
\<close>

theorem extender_holds_scorer_parameters:
  assumes "reachable env True t s"
  shows "extender_parameters s (query_extender t) = Some (get_parameters (scorer t))"
proof -
  have "settled \<Longrightarrow> extender_parameters s (query_extender t) = Some (get_parameters (scorer t))"
    if "reachable env settled t s" for settled
    using that
  proof (induction rule: reachable.induct)
    case (constructed b qe el n sc ei ati s t s')
    then show ?case
      by (auto simp: QueryTranslator_init_def set_parameters_def)
  next
    case (scorer_set settled t s sc t' s')
    then show ?case by (simp only: set_scorer_wires_extender)
  next
    case (scorer_not_set settled t s sc e t' s')
    then show ?case by simp
  next
    case (parsed settled t s query_text r s')
    with steady_extender_parameters [OF steady_parse_and_identify_entities] show ?case
      by metis
  next
    case (translated settled t s query_text r s')
    with steady_extender_parameters [OF steady_translate_query] show ?case
      by metis
  next
    case (executed settled t s query_text n_top r s')
    with steady_extender_parameters [OF steady_translate_and_execute_query] show ?case
      by metis
  qed
  with assms show ?thesis by blast
qed

theorem extender_holds_scorer_parameters_witness:
  "((extender_parameters example_state)(2 \<mapsto> get_parameters oracle_scorer)) 2 =
     Some (get_parameters oracle_scorer)"
proof -
  have "QueryTranslator_init 1 2 3 4 example_scorer 6 7 example_state0 =
      (example_translator, example_state)"
    by (simp add: example_translator_def example_state_def)
  then have "reachable example_env True example_translator example_state"
    by (rule reachable.constructed)
  then have "reachable example_env True (example_translator\<lparr>scorer := oracle_scorer\<rparr>)
      (example_state\<lparr>extender_parameters :=
         (extender_parameters example_state)(2 \<mapsto> get_parameters oracle_scorer)\<rparr>)"
    using example_set_oracle_scorer by (rule reachable.scorer_set)
  from extender_holds_scorer_parameters [OF this] show ?thesis
    by (simp add: example_translator_def QueryTranslator_init_def)
qed

text \<open>
  C7, as the claim has it, after every call of \<open>set_scorer\<close>: not so after a call that
  raises. Where the construction of the entity linker fails, the translator constructed on
  the small installation has the new scorer, and its extender the parameters of the old one.
\<close>

theorem extender_holds_scorer_parameters_counterexample:
  "reachable failing_env False (example_translator\<lparr>scorer := other_scorer\<rparr>) example_state \<and>
   extender_parameters example_state
       (query_extender (example_translator\<lparr>scorer := other_scorer\<rparr>)) =
     Some (get_parameters example_scorer) \<and>
   extender_parameters example_state
       (query_extender (example_translator\<lparr>scorer := other_scorer\<rparr>)) \<noteq>
     Some (get_parameters (scorer (example_translator\<lparr>scorer := other_scorer\<rparr>)))"
proof -
  have "QueryTranslator_init 1 2 3 4 example_scorer 6 7 example_state0 =
      (example_translator, example_state)"
    by (simp add: example_translator_def example_state_def)
  then have "reachable failing_env True example_translator example_state"
    by (rule reachable.constructed)
  then have "reachable failing_env False (example_translator\<lparr>scorer := other_scorer\<rparr>)
      example_state"
    using failing_set_scorer by (rule reachable.scorer_not_set)
  then show ?thesis
    by (simp add: example_translator_def example_state_def example_state0_def
        QueryTranslator_init_def set_parameters_def get_parameters_def example_scorer_def
        other_scorer_def example_parameters_def)
qed

end
